theory Spec2Isabelle
  imports Complex_Main "HOL-Library.Sublist"
begin

section \<open>The ROI companion (app.py): model\<close>

text \<open>
  The script keeps its logic in two helpers, \<^verbatim>\<open>compute_roi\<close> and \<^verbatim>\<open>load_markdown\<close>,
  and in the list comprehension and loop of the sensitivity tab. Python's \<^verbatim>\<open>float\<close> is
  modelled by \<^typ>\<open>real\<close>: the arithmetic below is exact, where the interpreter rounds
  every operation to a double. Python's \<^verbatim>\<open>int\<close> is \<^typ>\<open>int\<close>. An exception is a value
  of \<open>py_error\<close>, and a function that can raise returns \<open>py_error + 'a\<close>.
\<close>

datatype py_error =
    ZeroDivisionError
  | ValueError
  | FileNotFoundError
  | IsADirectoryError
  | UnicodeDecodeError

subsection \<open>Arithmetic primitives of the interpreter\<close>

text \<open>\<^verbatim>\<open>a / b\<close> on numbers: true division, raising on a zero divisor.\<close>

definition py_truediv :: "real \<Rightarrow> real \<Rightarrow> py_error + real" where
  "py_truediv a b = (if b = 0 then Inl ZeroDivisionError else Inr (a / b))"

text \<open>\<^verbatim>\<open>int(x)\<close> on a float: truncation towards zero.\<close>

definition py_int :: "real \<Rightarrow> int" where
  "py_int x = (if 0 \<le> x then \<lfloor>x\<rfloor> else \<lceil>x\<rceil>)"

text \<open>
  \<^verbatim>\<open>range(start, stop, step)\<close> materialised by \<^verbatim>\<open>list\<close>. The interpreter computes the
  length of the range first and then yields \<^verbatim>\<open>start + i * step\<close> for each index below
  it; a zero step raises \<^verbatim>\<open>ValueError\<close>.
\<close>

definition range_length :: "int \<Rightarrow> int \<Rightarrow> int \<Rightarrow> nat" where
  "range_length lo hi step =
     (if 0 < step \<and> lo < hi then nat (1 + (hi - 1 - lo) div step)
      else if step < 0 \<and> hi < lo then nat (1 + (lo - 1 - hi) div (0 - step))
      else 0)"

definition py_range :: "int \<Rightarrow> int \<Rightarrow> int \<Rightarrow> py_error + int list" where
  "py_range start stop step =
     (if step = 0 then Inl ValueError
      else Inr (map (\<lambda>i. start + int i * step) [0..<range_length start stop step]))"

subsection \<open>\<^verbatim>\<open>compute_roi\<close>\<close>

text \<open>
  The function returns a dictionary from the display names of the metrics to numbers;
  it is a map from strings to reals here. The locals of the function body are named
  definitions, so that statements can speak about them.
\<close>

type_synonym results = "string \<rightharpoonup> real"

definition labor_cost :: "real \<Rightarrow> real \<Rightarrow> real" where
  "labor_cost annual_ops_cost labor_share = annual_ops_cost * labor_share"

definition non_labor :: "real \<Rightarrow> real \<Rightarrow> real" where
  "non_labor annual_ops_cost labor_share = annual_ops_cost * (1 - labor_share)"

definition labor_savings :: "real \<Rightarrow> real \<Rightarrow> real \<Rightarrow> real" where
  "labor_savings annual_ops_cost labor_share manpower_reduction =
     labor_cost annual_ops_cost labor_share * manpower_reduction"

definition new_ops_cost :: "real \<Rightarrow> real \<Rightarrow> real \<Rightarrow> real \<Rightarrow> real" where
  "new_ops_cost annual_ops_cost labor_share manpower_reduction platform_cost =
     (labor_cost annual_ops_cost labor_share
        - labor_savings annual_ops_cost labor_share manpower_reduction)
     + non_labor annual_ops_cost labor_share + platform_cost"

definition savings :: "real \<Rightarrow> real \<Rightarrow> real \<Rightarrow> real \<Rightarrow> real" where
  "savings annual_ops_cost labor_share manpower_reduction platform_cost =
     annual_ops_cost - new_ops_cost annual_ops_cost labor_share manpower_reduction platform_cost"

definition throughput_effect :: "real \<Rightarrow> real" where
  "throughput_effect productivity_gain = 1 + productivity_gain"

definition compute_roi :: "real \<Rightarrow> real \<Rightarrow> real \<Rightarrow> real \<Rightarrow> real \<Rightarrow> py_error + results" where
  "compute_roi annual_ops_cost labor_share manpower_reduction productivity_gain platform_cost =
     (let new_cost = new_ops_cost annual_ops_cost labor_share manpower_reduction platform_cost;
          sav = savings annual_ops_cost labor_share manpower_reduction platform_cost
      in case (if platform_cost \<noteq> 0 then py_truediv sav platform_cost else Inr 0) of
           Inl e \<Rightarrow> Inl e
         | Inr roi \<Rightarrow>
          (case (if 0 < platform_cost
                 then (case py_truediv platform_cost (max sav 1) of
                         Inl e \<Rightarrow> Inl e
                       | Inr q \<Rightarrow> Inr (12 * q))
                 else Inr 0) of
             Inl e \<Rightarrow> Inl e
           | Inr payback_months \<Rightarrow>
               Inr [''Baseline cost'' \<mapsto> annual_ops_cost,
                    ''New cost'' \<mapsto> new_cost,
                    ''Savings'' \<mapsto> sav,
                    ''Platform cost'' \<mapsto> platform_cost,
                    ''ROI (Savings / Platform)'' \<mapsto> roi,
                    ''Payback (months)'' \<mapsto> payback_months,
                    ''Labor share'' \<mapsto> labor_share,
                    ''Manpower reduction (%)'' \<mapsto> manpower_reduction,
                    ''Productivity gain (%)'' \<mapsto> productivity_gain,
                    ''Throughput multiplier (1+prod)'' \<mapsto> throughput_effect productivity_gain]))"

subsection \<open>The sensitivity sweep\<close>

text \<open>
  The sensitivity tab builds the lever values with
  \<^verbatim>\<open>[i / 100 for i in list(range(0, 41, max(1, int(40/(steps-1)))))]\<close>,
  the same expression in both branches, and then calls \<^verbatim>\<open>compute_roi\<close> once per value,
  storing the value under the key \<^verbatim>\<open>"x"\<close> of the returned dictionary and appending the
  dictionary to \<^verbatim>\<open>rows\<close>.
\<close>

definition sweep_stride :: "int \<Rightarrow> py_error + int" where
  "sweep_stride steps =
     (case py_truediv 40 (real_of_int (steps - 1)) of
        Inl e \<Rightarrow> Inl e
      | Inr q \<Rightarrow> Inr (max 1 (py_int q)))"

text \<open>The divisor of \<^verbatim>\<open>i / 100\<close> is the literal 100, so this division cannot raise.\<close>

definition sweep_xs :: "int \<Rightarrow> py_error + real list" where
  "sweep_xs steps =
     (case sweep_stride steps of
        Inl e \<Rightarrow> Inl e
      | Inr stride \<Rightarrow>
         (case py_range 0 41 stride of
            Inl e \<Rightarrow> Inl e
          | Inr points \<Rightarrow> Inr (map (\<lambda>i. real_of_int i / 100) points)))"

text \<open>
  The \<^verbatim>\<open>for\<close> loop over the lever values: \<open>f\<close> is the call of \<^verbatim>\<open>compute_roi\<close> with
  the lever in its place. An exception in one call ends the loop.
\<close>

fun sweep_rows :: "(real \<Rightarrow> py_error + results) \<Rightarrow> real list \<Rightarrow> py_error + results list" where
  "sweep_rows f [] = Inr []"
| "sweep_rows f (x # xs) =
     (case f x of
        Inl e \<Rightarrow> Inl e
      | Inr r \<Rightarrow>
         (case sweep_rows f xs of
            Inl e \<Rightarrow> Inl e
          | Inr rows \<Rightarrow> Inr (r(''x'' \<mapsto> x) # rows)))"

definition sweep ::
  "real \<Rightarrow> real \<Rightarrow> real \<Rightarrow> real \<Rightarrow> real \<Rightarrow> string \<Rightarrow> int \<Rightarrow> py_error + results list" where
  "sweep annual_ops_cost labor_share manpower_reduction productivity_gain platform_cost opt steps =
     (if opt = ''Manpower reduction (%)''
      then (case sweep_xs steps of
              Inl e \<Rightarrow> Inl e
            | Inr xs \<Rightarrow>
                sweep_rows
                  (\<lambda>mcut. compute_roi annual_ops_cost labor_share mcut productivity_gain platform_cost)
                  xs)
      else (case sweep_xs steps of
              Inl e \<Rightarrow> Inl e
            | Inr xs \<Rightarrow>
                sweep_rows
                  (\<lambda>pg. compute_roi annual_ops_cost labor_share manpower_reduction pg platform_cost)
                  xs))"

subsection \<open>\<^verbatim>\<open>load_markdown\<close>\<close>







section \<open>Properties of \<^verbatim>\<open>compute_roi\<close>\<close>

lemmas locals_defs =
  savings_def new_ops_cost_def labor_cost_def labor_savings_def non_labor_def

lemma savings_closed: "savings a ls mr p = a * ls * mr - p"
  by (simp add: locals_defs algebra_simps)

text \<open>
  Neither division of the body can raise: the first is guarded by the truth value of
  \<open>platform_cost\<close>, the divisor of the second is at least 1. So the function always
  returns, and the dictionary it returns has a closed form.
\<close>

lemma compute_roi_returns:
  "compute_roi a ls mr pg p =
     Inr [''Baseline cost'' \<mapsto> a,
          ''New cost'' \<mapsto> new_ops_cost a ls mr p,
          ''Savings'' \<mapsto> savings a ls mr p,
          ''Platform cost'' \<mapsto> p,
          ''ROI (Savings / Platform)'' \<mapsto> (if p \<noteq> 0 then savings a ls mr p / p else 0),
          ''Payback (months)'' \<mapsto> (if 0 < p then 12 * (p / max (savings a ls mr p) 1) else 0),
          ''Labor share'' \<mapsto> ls,
          ''Manpower reduction (%)'' \<mapsto> mr,
          ''Productivity gain (%)'' \<mapsto> pg,
          ''Throughput multiplier (1+prod)'' \<mapsto> throughput_effect pg]"
proof -
  have m: "max (savings a ls mr p) 1 \<noteq> 0"
    by (simp add: max_def)
  show ?thesis
    unfolding compute_roi_def Let_def py_truediv_def using m by simp
qed

lemma compute_roi_Inr: "\<exists>r. compute_roi a ls mr pg p = Inr r"
  by (simp add: compute_roi_returns)

lemma compute_roi_projr:
  "compute_roi a ls mr pg p = Inr (projr (compute_roi a ls mr pg p))"
  using compute_roi_Inr [of a ls mr pg p] by auto

text \<open>
  C1, as the source computes it. The scenario is the default of the sidebar: baseline
  cost 5,000,000, labor share 0.80, manpower reduction 0.20, productivity gain 0.25,
  platform cost 600,000. The new cost includes the platform cost, so the function
  returns a new cost of 4,800,000 (not 3,800,000), savings of 200,000 (not 1,200,000),
  an ROI of 1/3 (not 2.0) and a payback of 36 months (not 6.0).
\<close>

theorem compute_scenario_counterexample:
  "\<exists>r. compute_roi 5000000 0.80 0.20 0.25 600000 = Inr r
       \<and> r ''New cost'' = Some 4800000 \<and> r ''New cost'' \<noteq> Some 3800000
       \<and> r ''Savings'' = Some 200000 \<and> r ''Savings'' \<noteq> Some 1200000
       \<and> r ''ROI (Savings / Platform)'' = Some (1 / 3)
       \<and> r ''ROI (Savings / Platform)'' \<noteq> Some 2
       \<and> r ''Payback (months)'' = Some 36 \<and> r ''Payback (months)'' \<noteq> Some 6"
  by (simp add: compute_roi_returns locals_defs)

text \<open>
  C1 (amended): on the default scenario the locals are labor cost 4,000,000, non-labor
  cost 1,000,000 and labor savings 800,000, and \<^verbatim>\<open>compute_roi\<close> returns new cost
  4,800,000, savings 200,000, ROI 1/3, payback 36 months and throughput multiplier 1.25,
  next to the echoed inputs.
\<close>

theorem compute_scenario:
  "labor_cost 5000000 0.80 = 4000000
   \<and> non_labor 5000000 0.80 = 1000000
   \<and> labor_savings 5000000 0.80 0.20 = 800000
   \<and> compute_roi 5000000 0.80 0.20 0.25 600000 =
       Inr [''Baseline cost'' \<mapsto> 5000000,
            ''New cost'' \<mapsto> 4800000,
            ''Savings'' \<mapsto> 200000,
            ''Platform cost'' \<mapsto> 600000,
            ''ROI (Savings / Platform)'' \<mapsto> 1 / 3,
            ''Payback (months)'' \<mapsto> 36,
            ''Labor share'' \<mapsto> 0.80,
            ''Manpower reduction (%)'' \<mapsto> 0.20,
            ''Productivity gain (%)'' \<mapsto> 0.25,
            ''Throughput multiplier (1+prod)'' \<mapsto> 1.25]"
  by (simp add: compute_roi_returns locals_defs throughput_effect_def)


text \<open>
  C4: with a positive platform cost the payback is twelve times the platform cost over
  the savings floored at 1, hence \<open>12 * platform_cost\<close> whenever the savings are at
  most 1; with a platform cost that is not positive the payback is 0.
\<close>

theorem payback_clamp:
  "\<exists>r sv pb. compute_roi a ls mr pg p = Inr r
     \<and> r ''Savings'' = Some sv \<and> r ''Payback (months)'' = Some pb
     \<and> (0 < p \<longrightarrow> pb = 12 * (p / max sv 1))
     \<and> (sv \<le> 1 \<and> 0 < p \<longrightarrow> pb = 12 * p)
     \<and> (p \<le> 0 \<longrightarrow> pb = 0)"
  by (simp add: compute_roi_returns max_def)

theorem payback_clamp_witness:
  "(\<exists>r. compute_roi 5000000 0.80 0.20 0.25 900000 = Inr r
       \<and> r ''Savings'' = Some (- 100000) \<and> r ''Payback (months)'' = Some 10800000)
   \<and> (\<exists>r. compute_roi 5000000 0.80 0.20 0.25 0 = Inr r \<and> r ''Payback (months)'' = Some 0)"
proof -
  have s: "savings 5000000 0.80 0.20 900000 = - 100000"
    by (simp add: savings_closed)
  obtain r sv pb where r: "compute_roi 5000000 0.80 0.20 0.25 900000 = Inr r"
      "r ''Savings'' = Some sv" "r ''Payback (months)'' = Some pb"
      "sv \<le> 1 \<and> (0::real) < 900000 \<longrightarrow> pb = 12 * 900000"
    using payback_clamp [of 5000000 "0.80" "0.20" "0.25" 900000] by blast
  have "sv = - 100000"
    using r(1,2) s by (auto simp add: compute_roi_returns)
  with r have a: "\<exists>r. compute_roi 5000000 0.80 0.20 0.25 900000 = Inr r
       \<and> r ''Savings'' = Some (- 100000) \<and> r ''Payback (months)'' = Some 10800000"
    by simp
  obtain r' pb' where r': "compute_roi 5000000 0.80 0.20 0.25 0 = Inr r'"
      "r' ''Payback (months)'' = Some pb'" "(0::real) \<le> 0 \<longrightarrow> pb' = 0"
    using payback_clamp [of 5000000 "0.80" "0.20" "0.25" 0] by blast
  then have b: "\<exists>r. compute_roi 5000000 0.80 0.20 0.25 0 = Inr r
       \<and> r ''Payback (months)'' = Some 0"
    by simp
  from a b show ?thesis by blast
qed

text \<open>
  C5: the ROI of the result is 0 when the platform cost is 0, and the savings divided by
  the platform cost otherwise.
\<close>

theorem roi_zero_platform:
  "\<exists>r sv ro. compute_roi a ls mr pg p = Inr r
     \<and> r ''Savings'' = Some sv \<and> r ''ROI (Savings / Platform)'' = Some ro
     \<and> (p = 0 \<longrightarrow> ro = 0)
     \<and> (p \<noteq> 0 \<longrightarrow> ro = sv / p)"
  by (simp add: compute_roi_returns)

theorem roi_zero_platform_witness:
  "(\<exists>r. compute_roi 5000000 0.80 0.20 0.25 0 = Inr r
       \<and> r ''ROI (Savings / Platform)'' = Some 0)
   \<and> (\<exists>r. compute_roi 5000000 0.80 0.20 0.25 600000 = Inr r
         \<and> r ''Savings'' = Some 200000
         \<and> r ''ROI (Savings / Platform)'' = Some (200000 / 600000))"
proof -
  obtain r ro where r: "compute_roi 5000000 0.80 0.20 0.25 0 = Inr r"
      "r ''ROI (Savings / Platform)'' = Some ro" "(0::real) = 0 \<longrightarrow> ro = 0"
    using roi_zero_platform [of 5000000 "0.80" "0.20" "0.25" 0] by blast
  then have a: "\<exists>r. compute_roi 5000000 0.80 0.20 0.25 0 = Inr r
      \<and> r ''ROI (Savings / Platform)'' = Some 0"
    by simp
  obtain r' sv ro' where r': "compute_roi 5000000 0.80 0.20 0.25 600000 = Inr r'"
      "r' ''Savings'' = Some sv" "r' ''ROI (Savings / Platform)'' = Some ro'"
      "(600000::real) \<noteq> 0 \<longrightarrow> ro' = sv / 600000"
    using roi_zero_platform [of 5000000 "0.80" "0.20" "0.25" 600000] by blast
  have "sv = 200000"
    using r'(1,2) by (auto simp add: compute_roi_returns locals_defs)
  with r' have b: "\<exists>r. compute_roi 5000000 0.80 0.20 0.25 600000 = Inr r
         \<and> r ''Savings'' = Some 200000
         \<and> r ''ROI (Savings / Platform)'' = Some (200000 / 600000)"
    by simp
  from a b show ?thesis by blast
qed

text \<open>
  C6: \<^verbatim>\<open>compute_roi\<close> returns a result for every combination of its five inputs and
  raises for none; in particular neither division meets a zero divisor.
\<close>

theorem compute_roi_total:
  "(\<exists>r. compute_roi a ls mr pg p = Inr r) \<and> (\<forall>e. compute_roi a ls mr pg p \<noteq> Inl e)"
  by (simp add: compute_roi_returns)

text \<open>
  C8: two calls that differ only in the productivity gain return the same new cost,
  savings, ROI and payback; the throughput multiplier is one plus the productivity
  gain. The two dictionaries differ at most under the throughput multiplier and under
  the key that echoes the productivity gain itself.
\<close>

theorem productivity_gain_only_throughput:
  "\<exists>r r' nc sv ro pb.
      compute_roi a ls mr pg p = Inr r \<and> compute_roi a ls mr pg' p = Inr r'
    \<and> r ''New cost'' = Some nc \<and> r' ''New cost'' = Some nc
    \<and> r ''Savings'' = Some sv \<and> r' ''Savings'' = Some sv
    \<and> r ''ROI (Savings / Platform)'' = Some ro \<and> r' ''ROI (Savings / Platform)'' = Some ro
    \<and> r ''Payback (months)'' = Some pb \<and> r' ''Payback (months)'' = Some pb
    \<and> r ''Throughput multiplier (1+prod)'' = Some (1 + pg)
    \<and> r' ''Throughput multiplier (1+prod)'' = Some (1 + pg')
    \<and> r' = r(''Productivity gain (%)'' \<mapsto> pg', ''Throughput multiplier (1+prod)'' \<mapsto> 1 + pg')"
  by (simp add: compute_roi_returns throughput_effect_def fun_upd_twist)



section \<open>Properties of the sensitivity sweep\<close>

text \<open>
  For two steps or more the quotient \<^verbatim>\<open>40/(steps-1)\<close> is positive, so truncating it is
  integer division, and the stride is \<open>max 1 (40 div (steps - 1))\<close>. With a single
  step the quotient divides by zero.
\<close>

lemma py_int_quotient:
  assumes "0 < k"
  shows "py_int (40 / real_of_int k) = 40 div k"
proof -
  have "(40::real) / real_of_int k = real_of_int 40 / real_of_int k" by simp
  then have "\<lfloor>(40::real) / real_of_int k\<rfloor> = 40 div k"
    by (simp only: floor_divide_of_int_eq)
  moreover have "0 \<le> (40::real) / real_of_int k" using assms by simp
  ultimately show ?thesis by (simp add: py_int_def)
qed

lemma sweep_stride_steps:
  "2 \<le> steps \<Longrightarrow> sweep_stride steps = Inr (max 1 (40 div (steps - 1)))"
  using py_int_quotient [of "steps - 1"]
  by (simp add: sweep_stride_def py_truediv_def del: of_int_diff)

lemma sweep_stride_one: "sweep_stride 1 = Inl ZeroDivisionError"
  by (simp add: sweep_stride_def py_truediv_def)

lemma py_range_41:
  "1 \<le> s \<Longrightarrow> py_range 0 41 s = Inr (map (\<lambda>i. int i * s) [0..<nat (1 + 40 div s)])"
  by (simp add: py_range_def range_length_def)

lemma sweep_xs_steps:
  assumes "2 \<le> steps"
  shows "sweep_xs steps =
    Inr (map (\<lambda>i. real_of_int (int i * max 1 (40 div (steps - 1))) / 100)
          [0..<nat (1 + 40 div max 1 (40 div (steps - 1)))])"
  using assms by (simp add: sweep_xs_def sweep_stride_steps py_range_41 comp_def)

lemma sweep_rows_total:
  assumes "\<And>x. f x = Inr (g x)"
  shows "sweep_rows f xs = Inr (map (\<lambda>x. (g x)(''x'' \<mapsto> x)) xs)"
  by (induction xs) (simp_all add: assms fun_upd_def)

lemma sweep_returns:
  assumes "2 \<le> steps"
  shows "sweep a ls mr pg p opt steps =
    Inr (map (\<lambda>x. (projr (if opt = ''Manpower reduction (%)''
                            then compute_roi a ls x pg p else compute_roi a ls mr x p))(''x'' \<mapsto> x))
          (map (\<lambda>i. real_of_int (int i * max 1 (40 div (steps - 1))) / 100)
            [0..<nat (1 + 40 div max 1 (40 div (steps - 1)))]))"
proof (cases "opt = ''Manpower reduction (%)''")
  case True
  have "sweep_rows (\<lambda>mcut. compute_roi a ls mcut pg p) xs =
      Inr (map (\<lambda>x. (projr (compute_roi a ls x pg p))(''x'' \<mapsto> x)) xs)" for xs
    by (rule sweep_rows_total) (rule compute_roi_projr)
  with True assms show ?thesis
    by (simp add: sweep_def sweep_xs_steps)
next
  case False
  have "sweep_rows (\<lambda>g. compute_roi a ls mr g p) xs =
      Inr (map (\<lambda>x. (projr (compute_roi a ls mr x p))(''x'' \<mapsto> x)) xs)" for xs
    by (rule sweep_rows_total) (rule compute_roi_projr)
  with False assms show ?thesis
    by (simp add: sweep_def sweep_xs_steps)
qed

lemma stride_multiple_le:
  assumes "1 \<le> (s::int)"
  shows "(40 div s) * s \<le> 40"
proof -
  have "40 = (40 div s) * s + 40 mod s" by simp
  moreover have "0 \<le> 40 mod s" using assms by simp
  ultimately show ?thesis by linarith
qed




lemma sweep_one_step: "sweep a ls mr pg p opt 1 = Inl ZeroDivisionError"
  by (simp add: sweep_def sweep_xs_def sweep_stride_one)

lemma upt_five: "[0..<5] = [0, 1, 2, 3, 4]"
  by (simp add: upt_conv_Cons)

text \<open>
  C2, as the source computes it: with the default of the slider, 15 steps, the stride is
  \<open>40 div 14 = 2\<close> and the sweep has the 21 rows of \<open>0, 2, \<dots>, 40\<close>, not 15.
\<close>

theorem sweep_points_counterexample:
  "\<exists>rows. sweep 5000000 0.80 0.20 0.25 600000 ''Manpower reduction (%)'' 15 = Inr rows
     \<and> length rows = 21 \<and> length rows \<noteq> 15"
  by (simp add: sweep_returns)

text \<open>
  C2 (amended): for every base scenario, either lever and every step count of at least 2,
  the sweep returns one row per integer percentage point \<open>0, s, 2 s, \<dots>\<close> of \<open>[0, 40]\<close>,
  where \<open>s = max 1 (40 div (steps - 1))\<close> is the stride: \<open>1 + 40 div s\<close> rows, whose
  lever values are these points divided by 100, each row being the result of
  \<^verbatim>\<open>compute_roi\<close> on the base scenario with the lever set to that value, extended by
  the value under \<^verbatim>\<open>"x"\<close>. The number of rows is at least \<open>steps\<close> when
  \<open>steps \<le> 41\<close>, and never more than 41.
\<close>

theorem sweep_points:
  assumes "2 \<le> steps"
  shows "\<exists>rows s. sweep a ls mr pg p opt steps = Inr rows
     \<and> sweep_stride steps = Inr s \<and> s = max 1 (40 div (steps - 1))
     \<and> length rows = nat (1 + 40 div s)
     \<and> map (\<lambda>row. row ''x'') rows
         = map (\<lambda>k. Some (real_of_int (int k * s) / 100)) [0..<nat (1 + 40 div s)]
     \<and> (\<forall>i<length rows. \<exists>r.
           (if opt = ''Manpower reduction (%)''
            then compute_roi a ls (real_of_int (int i * s) / 100) pg p
            else compute_roi a ls mr (real_of_int (int i * s) / 100) p) = Inr r
           \<and> rows ! i = r(''x'' \<mapsto> real_of_int (int i * s) / 100))
     \<and> (steps \<le> 41 \<longrightarrow> nat steps \<le> length rows)
     \<and> length rows \<le> 41"
proof -
  define s where "s = max 1 (40 div (steps - 1))"
  define n where "n = nat (1 + 40 div s)"
  define f where "f = (\<lambda>x. if opt = ''Manpower reduction (%)''
      then compute_roi a ls x pg p else compute_roi a ls mr x p)"
  define rows where "rows = map (\<lambda>x. (projr (f x))(''x'' \<mapsto> x))
      (map (\<lambda>i. real_of_int (int i * s) / 100) [0..<n])"
  have s1: "1 \<le> s" by (simp add: s_def)
  have d: "0 \<le> 40 div s" using s1 by (simp add: pos_imp_zdiv_nonneg_iff)
  have 1: "sweep a ls mr pg p opt steps = Inr rows"
    using assms by (simp add: sweep_returns rows_def f_def n_def s_def)
  have 2: "sweep_stride steps = Inr s"
    using assms by (simp add: sweep_stride_steps s_def)
  have 3: "length rows = n" by (simp add: rows_def)
  have 4: "map (\<lambda>row. row ''x'') rows = map (\<lambda>k. Some (real_of_int (int k * s) / 100)) [0..<n]"
    by (simp add: rows_def comp_def)
  have fx: "f x = Inr (projr (f x))" for x
    unfolding f_def using compute_roi_projr by simp
  have 5: "\<forall>i<length rows. \<exists>r. f (real_of_int (int i * s) / 100) = Inr r
           \<and> rows ! i = r(''x'' \<mapsto> real_of_int (int i * s) / 100)"
  proof (intro allI impI)
    fix i assume "i < length rows"
    then have "i < n" using 3 by simp
    then have "rows ! i = (projr (f (real_of_int (int i * s) / 100)))(''x'' \<mapsto> real_of_int (int i * s) / 100)"
      by (simp add: rows_def)
    with fx show "\<exists>r. f (real_of_int (int i * s) / 100) = Inr r
           \<and> rows ! i = r(''x'' \<mapsto> real_of_int (int i * s) / 100)" by blast
  qed
  have 6: "nat steps \<le> n" if "steps \<le> 41"
  proof -
    have k: "1 \<le> steps - 1" "steps - 1 \<le> 40" using assms that by simp_all
    then have "0 < 40 div (steps - 1)"
      by (simp add: pos_imp_zdiv_pos_iff)
    then have "1 \<le> 40 div (steps - 1)" by simp
    then have se: "s = 40 div (steps - 1)" by (simp add: s_def)
    have "(steps - 1) * s \<le> 40"
      using stride_multiple_le [of "steps - 1"] k se by (simp add: mult.commute)
    then have "((steps - 1) * s) div s \<le> 40 div s" using s1 by (intro zdiv_mono1) simp_all
    then have "steps - 1 \<le> 40 div s" using s1 by simp
    then show ?thesis by (simp add: n_def)
  qed
  have "40 div s \<le> 40 div 1" using s1 by (intro zdiv_mono2) simp_all
  then have 7: "n \<le> 41" by (simp add: n_def)
  have len: "length rows = nat (1 + 40 div s)" using 3 by (simp add: n_def)
  have lev: "map (\<lambda>row. row ''x'') rows
      = map (\<lambda>k. Some (real_of_int (int k * s) / 100)) [0..<nat (1 + 40 div s)]"
    using 4 by (simp add: n_def)
  have atleast: "steps \<le> 41 \<longrightarrow> nat steps \<le> length rows" using 6 3 by simp
  have atmost: "length rows \<le> 41" using 7 3 by simp
  have se: "s = max 1 (40 div (steps - 1))" by (simp add: s_def)
  show ?thesis
    apply (rule exI [of _ rows], rule exI [of _ s])
    apply (intro conjI)
    apply (rule 1)
    apply (rule 2)
    apply (rule se)
    apply (rule len)
    apply (rule lev)
    apply (rule 5 [unfolded f_def])
    apply (rule atleast)
    apply (rule atmost)
    done
qed

theorem sweep_points_witness:
  "(2::int) \<le> 5
   \<and> (\<exists>rows. sweep 5000000 0.80 0.20 0.25 600000 ''Manpower reduction (%)'' 5 = Inr rows
         \<and> sweep_stride 5 = Inr 10
         \<and> length rows = 5
         \<and> map (\<lambda>row. row ''x'') rows = [Some 0, Some 0.10, Some 0.20, Some 0.30, Some 0.40])"
proof -
  have h: "(2::int) \<le> 5" by simp
  obtain rows s where r:
      "sweep 5000000 0.80 0.20 0.25 600000 ''Manpower reduction (%)'' 5 = Inr rows
       \<and> sweep_stride 5 = Inr s \<and> s = max 1 (40 div (5 - 1))
       \<and> length rows = nat (1 + 40 div s)
       \<and> map (\<lambda>row. row ''x'') rows
         = map (\<lambda>k. Some (real_of_int (int k * s) / 100)) [0..<nat (1 + 40 div s)]
       \<and> (\<forall>i<length rows. \<exists>r.
           (if ''Manpower reduction (%)'' = ''Manpower reduction (%)''
            then compute_roi 5000000 0.80 (real_of_int (int i * s) / 100) 0.25 600000
            else compute_roi 5000000 0.80 0.20 (real_of_int (int i * s) / 100) 600000) = Inr r
           \<and> rows ! i = r(''x'' \<mapsto> real_of_int (int i * s) / 100))
       \<and> ((5::int) \<le> 41 \<longrightarrow> nat 5 \<le> length rows)
       \<and> length rows \<le> 41"
    using sweep_points [OF h, of 5000000 "0.80" "0.20" "0.25" 600000 "''Manpower reduction (%)''"]
    by (elim exE) (rule that)
  note c1 = r [THEN conjunct1]
  note c2 = r [THEN conjunct2, THEN conjunct1]
  note c3 = r [THEN conjunct2, THEN conjunct2, THEN conjunct1]
  note c4 = r [THEN conjunct2, THEN conjunct2, THEN conjunct2, THEN conjunct1]
  note c5 = r [THEN conjunct2, THEN conjunct2, THEN conjunct2, THEN conjunct2, THEN conjunct1]
  from c3 have s: "s = 10" by simp
  from c2 s have 1: "sweep_stride 5 = Inr 10" by simp
  from c4 s have 2: "length rows = 5" by simp
  have n: "nat (1 + 40 div (10::int)) = 5" by simp
  from c5 have "map (\<lambda>row. row ''x'') rows
      = map (\<lambda>k. Some (real_of_int (int k * 10) / 100)) [0, 1, 2, 3, 4]"
    unfolding s n upt_five .
  then have 3: "map (\<lambda>row. row ''x'') rows
      = [Some 0, Some 0.10, Some 0.20, Some 0.30, Some 0.40]"
    by simp
  show ?thesis
    apply (rule conjI)
     apply (rule h)
    apply (rule exI [of _ rows])
    apply (intro conjI)
       apply (rule c1)
      apply (rule 1)
     apply (rule 2)
    apply (rule 3)
    done
qed



section \<open>Properties of \<^verbatim>\<open>load_markdown\<close>\<close>



end
